theory Spec2Isabelle
  imports Complex_Main
begin

section \<open>Python values and arithmetic\<close>

text \<open>
  The program computes with Python numbers. Two kinds of scalar occur: the built-in
  \<^verbatim>\<open>int\<close>/\<^verbatim>\<open>float\<close> (the constructor arguments, literals) and \<^verbatim>\<open>numpy.float64\<close>
  (everything computed from \<^verbatim>\<open>np.sqrt\<close>, and what \<^verbatim>\<open>scipy\<close> returns). They differ
  where it matters here: dividing built-in numbers by zero raises
  \<^verbatim>\<open>ZeroDivisionError\<close>, while numpy division by zero and the square root of a
  negative number only warn and return \<^verbatim>\<open>inf\<close> or \<^verbatim>\<open>nan\<close>.

  Finite floats are modelled as real numbers: rounding, overflow and underflow are not
  part of the model. \<open>NonFinite\<close> stands for a numpy float that is \<^verbatim>\<open>inf\<close> or
  \<^verbatim>\<open>nan\<close>, or that was computed from one; its value is not tracked further.
  \<open>NoneVal\<close> is \<^verbatim>\<open>None\<close> and \<open>Method\<close> is a bound-method object.
\<close>

datatype kind = Builtin | Numpy

datatype pyval = Num kind real | NonFinite | NoneVal | Method

datatype error = TypeError | ZeroDivisionError | IndexError | NotModelled

type_synonym res = "error + pyval"

fun kjoin :: "kind \<Rightarrow> kind \<Rightarrow> kind" where
  "kjoin Builtin Builtin = Builtin"
| "kjoin Builtin Numpy = Numpy"
| "kjoin Numpy k = Numpy"

fun numeric :: "pyval \<Rightarrow> bool" where
  "numeric (Num k a) = True"
| "numeric NonFinite = True"
| "numeric NoneVal = False"
| "numeric Method = False"

text \<open>\<^verbatim>\<open>+\<close>, \<^verbatim>\<open>-\<close> and \<^verbatim>\<open>*\<close>: a non-number operand is a \<^verbatim>\<open>TypeError\<close>.\<close>

fun arith :: "(real \<Rightarrow> real \<Rightarrow> real) \<Rightarrow> pyval \<Rightarrow> pyval \<Rightarrow> res" where
  "arith f (Num k1 a) (Num k2 b) = Inr (Num (kjoin k1 k2) (f a b))"
| "arith f u v = (if numeric u \<and> numeric v then Inr NonFinite else Inl TypeError)"

text \<open>\<^verbatim>\<open>/\<close>: built-in by built-in zero raises; with a numpy operand it does not.\<close>

fun truediv :: "pyval \<Rightarrow> pyval \<Rightarrow> res" where
  "truediv (Num k1 a) (Num k2 b) =
     (if b = 0 then (if kjoin k1 k2 = Builtin then Inl ZeroDivisionError else Inr NonFinite)
      else Inr (Num (kjoin k1 k2) (a / b)))"
| "truediv u v = (if numeric u \<and> numeric v then Inr NonFinite else Inl TypeError)"

text \<open>\<^verbatim>\<open>x ** 2\<close> with the integer literal 2.\<close>

fun square :: "pyval \<Rightarrow> res" where
  "square (Num k a) = Inr (Num k (a * a))"
| "square NonFinite = Inr NonFinite"
| "square v = Inl TypeError"

text \<open>\<^verbatim>\<open>np.sqrt\<close>: always a numpy float; \<^verbatim>\<open>nan\<close> below zero.\<close>

fun np_sqrt_val :: "pyval \<Rightarrow> res" where
  "np_sqrt_val (Num k a) = (if a < 0 then Inr NonFinite else Inr (Num Numpy (sqrt a)))"
| "np_sqrt_val NonFinite = Inr NonFinite"
| "np_sqrt_val v = Inl TypeError"

text \<open>
  \<^verbatim>\<open>x ** y\<close> on finite numbers. \<open>None\<close> of \<open>real_pow\<close> is the case without a finite
  real result: zero to a negative power, or a negative base with a fractional exponent.
\<close>

definition real_pow :: "real \<Rightarrow> real \<Rightarrow> real option" where
  "real_pow a b =
     (if 0 < a then Some (a powr b)
      else if a = 0 then (if 0 < b then Some 0 else if b = 0 then Some 1 else None)
      else if of_int \<lfloor>b\<rfloor> = b then Some (power_int a \<lfloor>b\<rfloor>) else None)"

text \<open>
  With a numpy operand the undefined cases are \<^verbatim>\<open>inf\<close>/\<^verbatim>\<open>nan\<close>. Between two built-in
  floats zero to a negative power raises, and a negative base with a fractional exponent
  gives a \<^verbatim>\<open>complex\<close>, which this model has no value for (\<open>NotModelled\<close>; the
  program never takes that path, its only exponents being numpy floats and a method
  object). \<^verbatim>\<open>1 ** y\<close> is 1 and \<^verbatim>\<open>x ** 0\<close> is 1 also for \<^verbatim>\<open>inf\<close> and \<^verbatim>\<open>nan\<close>.
\<close>

fun pow :: "pyval \<Rightarrow> pyval \<Rightarrow> res" where
  "pow (Num k1 a) (Num k2 b) =
     (case real_pow a b of
        Some c \<Rightarrow> Inr (Num (kjoin k1 k2) c)
      | None \<Rightarrow>
          (if kjoin k1 k2 = Builtin
           then (if a = 0 then Inl ZeroDivisionError else Inl NotModelled)
           else Inr NonFinite))"
| "pow (Num k1 a) NonFinite = (if a = 1 then Inr (Num Numpy 1) else Inr NonFinite)"
| "pow NonFinite (Num k2 b) = (if b = 0 then Inr (Num Numpy 1) else Inr NonFinite)"
| "pow u v = (if numeric u \<and> numeric v then Inr NonFinite else Inl TypeError)"

text \<open>
  Expressions: Python evaluates the left operand, then the right one, then applies the
  operator, so the first exception met in that order is the one raised.
\<close>

definition bnd :: "error + 'a \<Rightarrow> ('a \<Rightarrow> error + 'b) \<Rightarrow> error + 'b" where
  "bnd m f = (case m of Inl e \<Rightarrow> Inl e | Inr v \<Rightarrow> f v)"

definition lift2 :: "(pyval \<Rightarrow> pyval \<Rightarrow> res) \<Rightarrow> res \<Rightarrow> res \<Rightarrow> res" where
  "lift2 f x y = bnd x (\<lambda>u. bnd y (\<lambda>v. f u v))"

definition Add :: "res \<Rightarrow> res \<Rightarrow> res" where "Add = lift2 (arith (+))"
definition Sub :: "res \<Rightarrow> res \<Rightarrow> res" where "Sub = lift2 (arith (-))"
definition Mul :: "res \<Rightarrow> res \<Rightarrow> res" where "Mul = lift2 (arith (*))"
definition Div :: "res \<Rightarrow> res \<Rightarrow> res" where "Div = lift2 truediv"
definition Pow :: "res \<Rightarrow> res \<Rightarrow> res" where "Pow = lift2 pow"
definition Sq :: "res \<Rightarrow> res" where "Sq x = bnd x square"
definition np_sqrt :: "res \<Rightarrow> res" where "np_sqrt x = bnd x np_sqrt_val"

text \<open>A variable, a float literal or float attribute, an attribute that may be \<^verbatim>\<open>None\<close>.\<close>

definition ret :: "pyval \<Rightarrow> res" where "ret v = Inr v"
definition lit :: "real \<Rightarrow> res" where "lit a = Inr (Num Builtin a)"
definition attr :: "real option \<Rightarrow> res" where
  "attr a = (case a of None \<Rightarrow> Inr NoneVal | Some x \<Rightarrow> Inr (Num Builtin x))"

section \<open>AssetsDynamics\<close>

text \<open>
  The parameter object. \<^verbatim>\<open>q\<close>, \<^verbatim>\<open>eta\<close> and \<^verbatim>\<open>theta\<close> default to \<^verbatim>\<open>None\<close>; the
  other five are built-in floats. The constructor stores its arguments and checks
  nothing.
\<close>

record assets_dynamics =
  drift :: real
  volatility :: real
  r_free :: real
  tau :: real
  alpha :: real
  q :: "real option"
  eta :: "real option"
  theta :: "real option"

definition AssetsDynamics_init ::
  "real \<Rightarrow> real \<Rightarrow> real \<Rightarrow> real \<Rightarrow> real \<Rightarrow> real option \<Rightarrow> real option \<Rightarrow> real option
     \<Rightarrow> assets_dynamics" where
  "AssetsDynamics_init drift' volatility' r_free' tau' alpha' q' eta' theta' =
     \<lparr>drift = drift', volatility = volatility', r_free = r_free', tau = tau',
      alpha = alpha', q = q', eta = eta', theta = theta'\<rparr>"

text \<open>
  The class method \<^verbatim>\<open>debt_renegotation_optimal_theta\<close>, called with numbers:
  \<^verbatim>\<open>theta = eta * alpha\<close>.
\<close>

definition debt_renegotation_optimal_theta ::
  "real \<Rightarrow> real \<Rightarrow> real \<Rightarrow> real \<Rightarrow> real \<Rightarrow> real \<Rightarrow> real \<Rightarrow> assets_dynamics" where
  "debt_renegotation_optimal_theta drift' volatility' r_free' tau' alpha' q' eta' =
     AssetsDynamics_init drift' volatility' r_free' tau' alpha'
       (Some q') (Some eta') (Some (eta' * alpha'))"

text \<open>\<^verbatim>\<open>assets = cash_flow * (1-self.tau) / (self.r_free - self.drift)\<close>\<close>

definition AssetsDynamics_value :: "assets_dynamics \<Rightarrow> pyval \<Rightarrow> res" where
  "AssetsDynamics_value self cash_flow =
     Div (Mul (ret cash_flow) (Sub (lit 1) (lit (tau self))))
         (Sub (lit (r_free self)) (lit (drift self)))"

section \<open>FirmClaimsLiquidation\<close>

text \<open>The method \<^verbatim>\<open>_beta2\<close>, the same text in both classes.\<close>

definition Liquidation_beta2 :: "assets_dynamics \<Rightarrow> res" where
  "Liquidation_beta2 self =
     Sub (Sub (lit (1/2)) (Div (lit (drift self)) (Sq (lit (volatility self)))))
         (np_sqrt
            (Add (Sq (Sub (lit (1/2)) (Div (lit (drift self)) (Sq (lit (volatility self))))))
                 (Div (Mul (lit 2) (lit (r_free self))) (Sq (lit (volatility self))))))"

text \<open>
  \<^verbatim>\<open>(cash_flow/debt_limit) ** self._beta2\<close>: the exponent is the bound method itself;
  this class does not call it.
\<close>

definition Liquidation_arrow_debreu_default :: "assets_dynamics \<Rightarrow> pyval \<Rightarrow> pyval \<Rightarrow> res" where
  "Liquidation_arrow_debreu_default self cash_flow debt_limit =
     Pow (Div (ret cash_flow) (ret debt_limit)) (ret Method)"

definition Liquidation_equity :: "assets_dynamics \<Rightarrow> pyval \<Rightarrow> pyval \<Rightarrow> pyval \<Rightarrow> res" where
  "Liquidation_equity self coupon cash_flow debt_liquidation =
     bnd (Div (ret coupon) (lit (r_free self))) (\<lambda>risk_free_debt.
     bnd (Sub (AssetsDynamics_value self cash_flow)
              (Mul (Sub (lit 1) (lit (tau self))) (ret risk_free_debt))) (\<lambda>pv_cash_flow_no_default.
     bnd (Mul (Liquidation_arrow_debreu_default self cash_flow debt_liquidation)
              (Sub (AssetsDynamics_value self debt_liquidation)
                   (Mul (Sub (lit 1) (lit (tau self))) (ret risk_free_debt)))) (\<lambda>option_to_default.
     Sub (ret pv_cash_flow_no_default) (ret option_to_default))))"

definition Liquidation_debt :: "assets_dynamics \<Rightarrow> pyval \<Rightarrow> pyval \<Rightarrow> pyval \<Rightarrow> res" where
  "Liquidation_debt self coupon cash_flow debt_liquidation =
     bnd (Div (ret coupon) (lit (r_free self))) (\<lambda>risk_free_debt.
     bnd (Mul (Liquidation_arrow_debreu_default self cash_flow debt_liquidation)
              (Sub (Mul (Sub (lit 1) (lit (alpha self)))
                        (AssetsDynamics_value self debt_liquidation))
                   (ret risk_free_debt))) (\<lambda>debt_change.
     Add (ret risk_free_debt) (ret debt_change)))"

definition Liquidation_firm :: "assets_dynamics \<Rightarrow> pyval \<Rightarrow> pyval \<Rightarrow> pyval \<Rightarrow> res" where
  "Liquidation_firm self coupon cash_flow debt_liquidation =
     Add (Liquidation_equity self coupon cash_flow debt_liquidation)
         (Liquidation_debt self coupon cash_flow debt_liquidation)"

section \<open>FirmClaimsRenegotiation\<close>

definition Renegotiation_beta2 :: "assets_dynamics \<Rightarrow> res" where
  "Renegotiation_beta2 self =
     Sub (Sub (lit (1/2)) (Div (lit (drift self)) (Sq (lit (volatility self)))))
         (np_sqrt
            (Add (Sq (Sub (lit (1/2)) (Div (lit (drift self)) (Sq (lit (volatility self))))))
                 (Div (Mul (lit 2) (lit (r_free self))) (Sq (lit (volatility self))))))"

text \<open>\<^verbatim>\<open>(cash_flow/debt_limit) ** self._beta2()\<close>: here the method is called.\<close>

definition Renegotiation_arrow_debreu_default :: "assets_dynamics \<Rightarrow> pyval \<Rightarrow> pyval \<Rightarrow> res" where
  "Renegotiation_arrow_debreu_default self cash_flow debt_limit =
     Pow (Div (ret cash_flow) (ret debt_limit)) (Renegotiation_beta2 self)"

definition Renegotiation_debt_renegotiation :: "assets_dynamics \<Rightarrow> pyval \<Rightarrow> res" where
  "Renegotiation_debt_renegotiation self coupon =
     bnd (Div (ret coupon) (lit (r_free self))) (\<lambda>risk_free_debt.
     Div (Mul (Mul (Sub (lit (r_free self)) (lit (drift self))) (ret risk_free_debt))
              (Renegotiation_beta2 self))
         (Mul (Sub (Renegotiation_beta2 self) (lit 1))
              (Sub (lit 1) (Mul (Sub (lit 1) (attr (q self))) (attr (theta self))))))"

definition Renegotiation_equity :: "assets_dynamics \<Rightarrow> pyval \<Rightarrow> pyval \<Rightarrow> res" where
  "Renegotiation_equity self coupon cash_flow =
     bnd (Div (ret coupon) (lit (r_free self))) (\<lambda>risk_free_debt.
     bnd (Sub (AssetsDynamics_value self cash_flow)
              (Mul (Sub (lit 1) (lit (tau self))) (ret risk_free_debt))) (\<lambda>pv_cash_flow_no_default.
     bnd (Mul (bnd (Renegotiation_debt_renegotiation self coupon)
                   (Renegotiation_arrow_debreu_default self cash_flow))
              (Sub (Mul (bnd (Renegotiation_debt_renegotiation self coupon)
                             (AssetsDynamics_value self))
                        (Sub (lit 1) (Mul (Sub (lit 1) (attr (q self))) (attr (theta self)))))
                   (Mul (Sub (lit 1) (lit (tau self))) (ret risk_free_debt)))) (\<lambda>option_to_default.
     Sub (ret pv_cash_flow_no_default) (ret option_to_default))))"

definition Renegotiation_debt :: "assets_dynamics \<Rightarrow> pyval \<Rightarrow> pyval \<Rightarrow> res" where
  "Renegotiation_debt self coupon cash_flow =
     bnd (Div (ret coupon) (lit (r_free self))) (\<lambda>risk_free_debt.
     bnd (Mul (bnd (Renegotiation_debt_renegotiation self coupon)
                   (Renegotiation_arrow_debreu_default self cash_flow))
              (Sub (Add (Mul (Mul (attr (q self)) (Sub (lit 1) (lit (alpha self))))
                             (bnd (Renegotiation_debt_renegotiation self coupon)
                                  (AssetsDynamics_value self)))
                        (Mul (Mul (Sub (lit 1) (attr (q self))) (Sub (lit 1) (attr (theta self))))
                             (bnd (Renegotiation_debt_renegotiation self coupon)
                                  (AssetsDynamics_value self))))
                   (ret risk_free_debt))) (\<lambda>debt_change.
     Add (ret risk_free_debt) (ret debt_change)))"

definition Renegotiation_firm :: "assets_dynamics \<Rightarrow> pyval \<Rightarrow> pyval \<Rightarrow> res" where
  "Renegotiation_firm self coupon cash_flow =
     Add (Renegotiation_equity self coupon cash_flow)
         (Renegotiation_debt self coupon cash_flow)"

definition Renegotiation_obj_max_coupon :: "assets_dynamics \<Rightarrow> pyval \<Rightarrow> pyval \<Rightarrow> res" where
  "Renegotiation_obj_max_coupon self coupon cash_flow =
     Mul (lit (- 1)) (Renegotiation_firm self coupon cash_flow)"

text \<open>
  \<^verbatim>\<open>scipy.optimize.minimize\<close> is a library outside the repository: it is a parameter
  of the model, a function from the objective and the seed to an \<^verbatim>\<open>OptimizeResult\<close>
  (or to the exception the objective raised). Of the result, \<^verbatim>\<open>x\<close> is the final
  iterate and \<^verbatim>\<open>success\<close> tells whether the optimizer converged.
\<close>

record optimize_result =
  x :: "real list"
  success :: bool
  status :: int

type_synonym minimizer = "(pyval \<Rightarrow> res) \<Rightarrow> real \<Rightarrow> error + optimize_result"

text \<open>\<^verbatim>\<open>result.x[0]\<close>\<close>

definition first_component :: "optimize_result \<Rightarrow> res" where
  "first_component result =
     (case x result of [] \<Rightarrow> Inl IndexError | c # cs \<Rightarrow> Inr (Num Numpy c))"

text \<open>\<^verbatim>\<open>partial(self._obj_max_coupon, cash_flow=cash_flow)\<close>\<close>

definition partial_obj_max_coupon :: "assets_dynamics \<Rightarrow> pyval \<Rightarrow> pyval \<Rightarrow> res" where
  "partial_obj_max_coupon self cash_flow coupon = Renegotiation_obj_max_coupon self coupon cash_flow"

text \<open>The status of the result is not read: whatever \<^verbatim>\<open>result.x[0]\<close> is, is returned.\<close>

definition Renegotiation_max_coupon :: "assets_dynamics \<Rightarrow> minimizer \<Rightarrow> pyval \<Rightarrow> res" where
  "Renegotiation_max_coupon self minimize cash_flow =
     bnd (minimize (partial_obj_max_coupon self cash_flow) (1/1000)) first_component"

section \<open>The formulas of the specification, over the reals\<close>

definition beta2_formula :: "real \<Rightarrow> real \<Rightarrow> real \<Rightarrow> real" where
  "beta2_formula mu sigma r =
     1/2 - mu / sigma\<^sup>2 - sqrt ((1/2 - mu / sigma\<^sup>2)\<^sup>2 + 2 * r / sigma\<^sup>2)"

definition discriminant :: "real \<Rightarrow> real \<Rightarrow> real \<Rightarrow> real" where
  "discriminant mu sigma r = (1/2 - mu / sigma\<^sup>2)\<^sup>2 + 2 * r / sigma\<^sup>2"

definition boundary_formula :: "real \<Rightarrow> real \<Rightarrow> real \<Rightarrow> real \<Rightarrow> real \<Rightarrow> real \<Rightarrow> real" where
  "boundary_formula r mu c b qv tv = (r - mu) * (c / r) * b / ((b - 1) * (1 - (1 - qv) * tv))"

section \<open>Concrete inputs\<close>

text \<open>The parameters of the repository's example script.\<close>

definition example_dynamics :: assets_dynamics where
  "example_dynamics = debt_renegotation_optimal_theta (1/100) (1/4) (1/25) (3/20) (2/5) 1 (1/2)"

text \<open>Parameters at which the square root in \<^verbatim>\<open>_beta2\<close> is rational: \<open>beta2 = -1\<close>.\<close>

definition unit_dynamics :: assets_dynamics where
  "unit_dynamics =
     AssetsDynamics_init 0 1 1 (1/5) (1/2) (Some (1/2)) (Some (1/2)) (Some (1/2))"

text \<open>The same without the renegotiation parameters.\<close>

definition bare_dynamics :: assets_dynamics where
  "bare_dynamics = AssetsDynamics_init 0 1 1 (1/5) (1/2) None None None"

text \<open>The example's parameters with the drift raised to the riskless rate, 0.04.\<close>

definition degenerate_dynamics :: assets_dynamics where
  "degenerate_dynamics = AssetsDynamics_init (1/25) (1/4) (1/25) (3/20) (2/5) None None None"

text \<open>The example's parameters with a riskless rate of zero and no renegotiation parameters.\<close>

definition zero_rate_dynamics :: assets_dynamics where
  "zero_rate_dynamics = AssetsDynamics_init (1/100) (1/4) 0 (3/20) (2/5) None None None"

text \<open>An optimizer that gives up at once: it returns the seed and reports failure.\<close>

definition stalled_minimize :: minimizer where
  "stalled_minimize f x0 = Inr \<lparr>x = [x0], success = False, status = 2\<rparr>"

section \<open>Evaluation rules\<close>

lemma bnd_simps [simp]:
  "bnd (Inl e) f = Inl e"
  "bnd (Inr v) f = f v"
  by (simp_all add: bnd_def)

lemma lift2_simps [simp]:
  "lift2 f (Inl e) y = Inl e"
  "lift2 f (Inr u) (Inl e) = Inl e"
  "lift2 f (Inr u) (Inr v) = f u v"
  by (simp_all add: lift2_def)

lemma kjoin_simps [simp]:
  "kjoin k Builtin = k"
  "kjoin Builtin k = k"
  "kjoin k Numpy = Numpy"
  by (cases k; simp)+

lemmas expr_defs =
  Add_def Sub_def Mul_def Div_def Pow_def Sq_def np_sqrt_def ret_def lit_def attr_def

lemmas unit_defs = unit_dynamics_def AssetsDynamics_init_def

subsection \<open>The exponent\<close>

lemma beta2_eval:
  assumes "volatility self \<noteq> 0"
  shows "Renegotiation_beta2 self =
    (if discriminant (drift self) (volatility self) (r_free self) < 0 then Inr NonFinite
     else Inr (Num Numpy (beta2_formula (drift self) (volatility self) (r_free self))))"
  using assms
  by (simp add: Renegotiation_beta2_def expr_defs discriminant_def beta2_formula_def
      power2_eq_square)

lemma beta2_same: "Liquidation_beta2 self = Renegotiation_beta2 self"
  by (simp add: Liquidation_beta2_def Renegotiation_beta2_def)

lemma discriminant_pos:
  assumes "0 < sigma" "0 < r"
  shows "0 < discriminant mu sigma r"
proof -
  have "0 < 2 * r / sigma\<^sup>2" using assms by simp
  moreover have "0 \<le> (1/2 - mu / sigma\<^sup>2)\<^sup>2" by simp
  ultimately show ?thesis unfolding discriminant_def by linarith
qed

lemma beta2_formula_neg:
  assumes "0 < sigma" "0 < r"
  shows "beta2_formula mu sigma r < 0"
proof -
  define a where "a = 1/2 - mu / sigma\<^sup>2"
  have k: "0 < 2 * r / sigma\<^sup>2" using assms by simp
  have lt: "sqrt (a\<^sup>2) < sqrt (a\<^sup>2 + 2 * r / sigma\<^sup>2)"
    by (rule real_sqrt_less_mono) (use k in linarith)
  have "a \<le> \<bar>a\<bar>" by simp
  also have "\<bar>a\<bar> = sqrt (a\<^sup>2)" by simp
  also note lt
  finally show ?thesis by (simp add: beta2_formula_def a_def)
qed

lemma beta2_value:
  assumes "0 < volatility self" "0 < r_free self"
  shows "Renegotiation_beta2 self
      = Inr (Num Numpy (beta2_formula (drift self) (volatility self) (r_free self)))"
proof -
  have "0 < discriminant (drift self) (volatility self) (r_free self)"
    using assms by (rule discriminant_pos)
  moreover have "volatility self \<noteq> 0" using assms(1) by simp
  ultimately show ?thesis by (simp add: beta2_eval)
qed

text \<open>The exponent is 1 only when the riskless rate equals the drift.\<close>

lemma beta2_ne_one:
  assumes "r \<noteq> mu" "sigma \<noteq> 0" "0 \<le> discriminant mu sigma r"
  shows "beta2_formula mu sigma r \<noteq> 1"
proof
  assume e: "beta2_formula mu sigma r = 1"
  define a where "a = 1/2 - mu / sigma\<^sup>2"
  have "sqrt (discriminant mu sigma r) = a - 1"
    using e by (simp add: beta2_formula_def discriminant_def a_def)
  then have "(sqrt (discriminant mu sigma r))\<^sup>2 = (a - 1)\<^sup>2" by simp
  then have "discriminant mu sigma r = (a - 1)\<^sup>2" using assms(3) by simp
  then have "a\<^sup>2 + 2 * r / sigma\<^sup>2 = (a - 1)\<^sup>2" by (simp add: discriminant_def a_def)
  then have "2 * r / sigma\<^sup>2 = 1 - 2 * a" by (simp add: power2_eq_square algebra_simps)
  then have "2 * r / sigma\<^sup>2 = 2 * mu / sigma\<^sup>2" by (simp add: a_def)
  then have "r = mu" using assms(2) by simp
  with assms(1) show False by simp
qed

lemma sqrt_nine_quarters: "sqrt (9/4) = 3/2"
  by (rule real_sqrt_unique) (simp_all add: power2_eq_square)

lemma beta2_formula_unit: "beta2_formula 0 1 1 = - 1"
  by (simp add: beta2_formula_def power2_eq_square sqrt_nine_quarters)

lemma discriminant_unit: "discriminant 0 1 1 = 9/4"
  by (simp add: discriminant_def power2_eq_square)

lemma unit_beta2: "Renegotiation_beta2 unit_dynamics = Inr (Num Numpy (- 1))"
  by (simp add: beta2_eval unit_defs discriminant_unit beta2_formula_unit)

subsection \<open>Closed forms of the renegotiation model\<close>

lemma value_eval:
  assumes "r_free self \<noteq> drift self"
  shows "AssetsDynamics_value self (Num k a)
     = Inr (Num k (a * (1 - tau self) / (r_free self - drift self)))"
  using assms by (simp add: AssetsDynamics_value_def expr_defs)

lemma boundary_eval:
  assumes "r_free self \<noteq> 0" "q self = Some qv" "theta self = Some tv"
    and "1 - (1 - qv) * tv \<noteq> 0"
    and "Renegotiation_beta2 self = Inr (Num Numpy b)"
  shows "Renegotiation_debt_renegotiation self (Num k c) =
     (if b = 1 then Inr NonFinite
      else Inr (Num Numpy (boundary_formula (r_free self) (drift self) c b qv tv)))"
  using assms
  by (simp add: Renegotiation_debt_renegotiation_def expr_defs boundary_formula_def)

lemma arrow_debreu_eval:
  assumes "Renegotiation_beta2 self = Inr (Num Numpy b)" "0 < xv / B"
  shows "Renegotiation_arrow_debreu_default self (Num kx xv) (Num Numpy B)
     = Inr (Num Numpy ((xv / B) powr b))"
  using assms
  by (auto simp add: Renegotiation_arrow_debreu_default_def expr_defs real_pow_def)

text \<open>At the barrier itself the renegotiation kernel is 1, whatever the exponent.\<close>

lemma renegotiation_kernel_at_barrier:
  assumes "volatility self \<noteq> 0" "b \<noteq> 0"
  shows "Renegotiation_arrow_debreu_default self (Num k b) (Num k' b) = Inr (Num Numpy 1)"
  using assms
  by (simp add: Renegotiation_arrow_debreu_default_def beta2_eval expr_defs real_pow_def)

text \<open>The liquidation kernel returns on no input at all.\<close>

lemma liquidation_kernel_raises:
  "\<exists>e. Liquidation_arrow_debreu_default self u v = Inl e"
  by (cases "truediv u v") (simp_all add: Liquidation_arrow_debreu_default_def expr_defs)

lemma debt_eval:
  assumes "r_free self \<noteq> 0" "r_free self \<noteq> drift self"
    and "q self = Some qv" "theta self = Some tv"
    and "Renegotiation_beta2 self = Inr (Num Numpy b)"
    and "Renegotiation_debt_renegotiation self (Num kc c) = Inr (Num Numpy B)"
    and "0 < xv / B"
  shows "Renegotiation_debt self (Num kc c) (Num kx xv) =
     Inr (Num Numpy (c / r_free self + (xv / B) powr b *
        (qv * (1 - alpha self) * (B * (1 - tau self) / (r_free self - drift self))
         + (1 - qv) * (1 - tv) * (B * (1 - tau self) / (r_free self - drift self))
         - c / r_free self)))"
  using assms
  by (simp add: Renegotiation_debt_def arrow_debreu_eval value_eval expr_defs)

lemma equity_eval:
  assumes "r_free self \<noteq> 0" "r_free self \<noteq> drift self"
    and "q self = Some qv" "theta self = Some tv"
    and "Renegotiation_beta2 self = Inr (Num Numpy b)"
    and "Renegotiation_debt_renegotiation self (Num kc c) = Inr (Num Numpy B)"
    and "0 < xv / B"
  shows "Renegotiation_equity self (Num kc c) (Num kx xv) =
     Inr (Num Numpy (xv * (1 - tau self) / (r_free self - drift self)
                       - (1 - tau self) * (c / r_free self)
        - (xv / B) powr b *
        ((B * (1 - tau self) / (r_free self - drift self)) * (1 - (1 - qv) * tv)
         - (1 - tau self) * (c / r_free self))))"
  using assms
  by (simp add: Renegotiation_equity_def arrow_debreu_eval value_eval expr_defs)

lemma powr_minus_one: "0 < a \<Longrightarrow> a powr (- 1) = 1 / a" for a :: real
  by (simp add: powr_minus divide_inverse)

lemma unit_boundary:
  "Renegotiation_debt_renegotiation unit_dynamics (Num Builtin 1) = Inr (Num Numpy (2/3))"
  using boundary_eval [of unit_dynamics "1/2" "1/2" "- 1" Builtin 1]
  by (simp add: unit_beta2 boundary_formula_def) (simp add: unit_defs)

lemma unit_debt:
  "Renegotiation_debt unit_dynamics (Num Builtin 1) (Num Builtin 1) = Inr (Num Numpy (23/45))"
  using debt_eval [of unit_dynamics "1/2" "1/2" "- 1" Builtin 1 "2/3" 1 Builtin]
  by (simp add: unit_beta2 unit_boundary powr_minus_one) (simp add: unit_defs)

lemma unit_equity:
  "Renegotiation_equity unit_dynamics (Num Builtin 1) (Num Builtin 1) = Inr (Num Numpy (4/15))"
  using equity_eval [of unit_dynamics "1/2" "1/2" "- 1" Builtin 1 "2/3" 1 Builtin]
  by (simp add: unit_beta2 unit_boundary powr_minus_one) (simp add: unit_defs)

subsection \<open>The recovery at the boundary is below the riskless annuity\<close>

lemma recovery_below_annuity:
  fixes c r mu b qv tv al ta :: real
  assumes c: "0 < c" and r: "0 < r" and mu: "mu < r" and b: "b < 0"
    and ta: "0 \<le> ta" "ta < 1" and al: "0 \<le> al" "al \<le> 1"
    and qv: "0 \<le> qv" "qv \<le> 1" and tv: "0 \<le> tv" "tv \<le> 1"
    and d: "(1 - qv) * tv < 1"
  defines "B \<equiv> boundary_formula r mu c b qv tv"
  defines "V \<equiv> B * (1 - ta) / (r - mu)"
  shows "0 < B" and "qv * (1 - al) * V + (1 - qv) * (1 - tv) * V - c / r \<le> 0"
proof -
  define D where "D = 1 - (1 - qv) * tv"
  define m where "m = qv * (1 - al) + (1 - qv) * (1 - tv)"
  define g where "g = b / (b - 1)"
  have D: "0 < D" using d by (simp add: D_def)
  have g: "0 < g" "g \<le> 1" using b by (simp_all add: g_def divide_neg_neg field_simps)
  have cr: "0 < c / r" using c r by simp
  have Beq: "B = (r - mu) * (c / r) * g / D"
    by (simp add: B_def boundary_formula_def g_def D_def)
  have "0 < (r - mu) * (c / r) * g" using mu cr g by (intro mult_pos_pos) simp_all
  then show "0 < B" unfolding Beq using D by (rule divide_pos_pos)
  have Veq: "V = (c / r) * ((1 - ta) * g / D)"
    using mu by (simp add: V_def Beq)
  have m0: "0 \<le> m" using qv tv al by (simp add: m_def)
  have "qv * (1 - al) \<le> qv * 1" using qv al by (intro mult_left_mono) simp_all
  then have mD: "m \<le> D" by (simp add: m_def D_def algebra_simps)
  have "(1 - ta) * g \<le> 1 * 1" using ta g by (intro mult_mono) simp_all
  then have tg: "(1 - ta) * g \<le> 1" by simp
  have tg0: "0 \<le> (1 - ta) * g" using ta g by simp
  have "m * ((1 - ta) * g) \<le> D * 1" using m0 mD tg tg0 D by (intro mult_mono) simp_all
  then have "m * ((1 - ta) * g) / D \<le> 1" using D by (simp add: field_simps)
  then have "(c / r) * (m * ((1 - ta) * g) / D) \<le> (c / r) * 1"
    using cr by (intro mult_left_mono) simp_all
  moreover have "qv * (1 - al) * V + (1 - qv) * (1 - tv) * V = m * V"
    unfolding m_def by (rule distrib_right [symmetric])
  moreover have "m * V = (c / r) * (m * ((1 - ta) * g) / D)"
    unfolding Veq by simp
  ultimately show "qv * (1 - al) * V + (1 - qv) * (1 - tv) * V - c / r \<le> 0" by simp
qed

lemma discounted_shortfall_mono:
  fixes B x1 x2 b K a :: real
  assumes "0 < B" "B \<le> x1" "x1 \<le> x2" "b < 0" "K \<le> 0"
  shows "a + (x1 / B) powr b * K \<le> a + (x2 / B) powr b * K"
    and "a + (x2 / B) powr b * K \<le> a"
proof -
  have "0 < x1 / B" "x1 / B \<le> x2 / B" using assms by (simp_all add: divide_right_mono)
  then have "(x2 / B) powr b \<le> (x1 / B) powr b"
    using assms(4) by (intro powr_mono2') simp_all
  then have "(x1 / B) powr b * K \<le> (x2 / B) powr b * K"
    using assms(5) by (rule mult_right_mono_neg)
  then show "a + (x1 / B) powr b * K \<le> a + (x2 / B) powr b * K" by simp
  have "0 \<le> (x2 / B) powr b" by simp
  then have "(x2 / B) powr b * K \<le> 0" using assms(5) by (rule mult_nonneg_nonpos)
  then show "a + (x2 / B) powr b * K \<le> a" by simp
qed

subsection \<open>Additivity\<close>

lemma firm_additive:
  "Liquidation_firm self c cf dl
     = Add (Liquidation_equity self c cf dl) (Liquidation_debt self c cf dl)"
  "Renegotiation_firm self c cf
     = Add (Renegotiation_equity self c cf) (Renegotiation_debt self c cf)"
  "Renegotiation_equity self c cf = Inr (Num k1 e) \<Longrightarrow>
   Renegotiation_debt self c cf = Inr (Num k2 d) \<Longrightarrow>
   Renegotiation_firm self c cf = Inr (Num (kjoin k1 k2) (e + d))"
  by (simp_all add: Liquidation_firm_def Renegotiation_firm_def Add_def)

lemma unit_firm:
  "Renegotiation_firm unit_dynamics (Num Builtin 1) (Num Builtin 1) = Inr (Num Numpy (7/9))"
  using firm_additive(3) [OF unit_equity unit_debt] by simp

section \<open>Claims\<close>

text \<open>
  C1. The barrier-pricing helper is to return \<open>(cash_flow / barrier) ** beta2\<close> in both
  classes, hence 1 at \<open>cash_flow = barrier\<close>. \<^verbatim>\<open>FirmClaimsRenegotiation\<close> does so
  (\<open>renegotiation_kernel_at_barrier\<close>). \<^verbatim>\<open>FirmClaimsLiquidation\<close> writes
  \<^verbatim>\<open>self._beta2\<close> without calling it, so the exponent is a method object and the
  power raises \<^verbatim>\<open>TypeError\<close>: with the example's parameters, cash flow 1 and
  barrier 1, no 1 is returned.
\<close>

theorem liquidation_kernel_type_error:
  "Liquidation_arrow_debreu_default example_dynamics (Num Builtin 1) (Num Builtin 1)
     = Inl TypeError"
  by (simp add: Liquidation_arrow_debreu_default_def expr_defs)

text \<open>
  C2. \<^verbatim>\<open>firm\<close> is to equal \<^verbatim>\<open>equity\<close> plus \<^verbatim>\<open>debt\<close> at the same arguments in
  both classes. Both classes compute it as that sum (\<open>firm_additive\<close>), and the
  renegotiation model returns it (\<open>unit_firm\<close>). In \<^verbatim>\<open>FirmClaimsLiquidation\<close> the
  sum is never formed: \<^verbatim>\<open>equity\<close> already raises the \<^verbatim>\<open>TypeError\<close> of the kernel
  (see C1), so \<^verbatim>\<open>firm\<close> returns no value. With the example's parameters, coupon 1,
  cash flow 2 and boundary 1:
\<close>

theorem liquidation_firm_type_error:
  "Liquidation_firm example_dynamics (Num Builtin 1) (Num Builtin 2) (Num Builtin 1)
     = Inl TypeError"
  by (simp add: Liquidation_firm_def Liquidation_equity_def AssetsDynamics_value_def
      Liquidation_arrow_debreu_default_def example_dynamics_def
      debt_renegotation_optimal_theta_def AssetsDynamics_init_def
      expr_defs)

text \<open>
  C3. With \<open>r_free \<noteq> 0\<close>, \<open>volatility > 0\<close> and \<open>1 - (1-q)*theta \<noteq> 0\<close>, and \<open>b\<close> the
  number that \<^verbatim>\<open>_beta2\<close> returns (the negative root \<open>beta2_formula\<close>),
  \<^verbatim>\<open>debt_renegotiation(c)\<close> returns
  \<open>(r_free - drift) * (c / r_free) * b / ((b - 1) * (1 - (1-q)*theta))\<close>. Where
  \<open>b = 1\<close>, which needs \<open>r_free = drift\<close> (\<open>beta2_ne_one\<close>), the formula divides
  by zero and numpy returns \<^verbatim>\<open>nan\<close>.
\<close>

theorem debt_renegotiation_is_formula:
  assumes "r_free self \<noteq> 0" "0 < volatility self"
    and "q self = Some qv" "theta self = Some tv" "1 - (1 - qv) * tv \<noteq> 0"
    and "Renegotiation_beta2 self = Inr (Num Numpy b)"
  shows "b = beta2_formula (drift self) (volatility self) (r_free self)
     \<and> Renegotiation_debt_renegotiation self (Num k c) =
       (if b = 1 then Inr NonFinite
        else Inr (Num Numpy ((r_free self - drift self) * (c / r_free self) * b
                               / ((b - 1) * (1 - (1 - qv) * tv)))))"
proof -
  have v: "volatility self \<noteq> 0" using assms(2) by simp
  have "b = beta2_formula (drift self) (volatility self) (r_free self)"
    using assms(6) by (simp add: beta2_eval [OF v] split: if_splits)
  then show ?thesis
    using boundary_eval [OF assms(1,3,4,5,6), of k c] by (simp add: boundary_formula_def)
qed

text \<open>C3, at a concrete input: with \<open>unit_dynamics\<close> and coupon 1 the boundary is 2/3.\<close>

theorem debt_renegotiation_is_formula_witness:
  "Renegotiation_debt_renegotiation unit_dynamics (Num Builtin 1) = Inr (Num Numpy (2/3))"
  using debt_renegotiation_is_formula [of unit_dynamics "1/2" "1/2" "- 1" Builtin 1]
  by (simp add: unit_beta2) (simp add: unit_defs)

text \<open>
  C4. In the renegotiation model, for a coupon \<open>c > 0\<close> and parameters with
  \<open>volatility > 0\<close>, \<open>r_free > 0\<close>, \<open>r_free > drift\<close>, \<open>tau\<close> in \<open>[0,1)\<close>, \<open>alpha\<close>,
  \<open>q\<close>, \<open>theta\<close> in \<open>[0,1]\<close> and \<open>(1-q)*theta < 1\<close>: for cash flows \<open>x1 \<le> x2\<close> at or
  above the boundary \<open>B\<close> that \<^verbatim>\<open>debt_renegotiation(c)\<close> returns, \<^verbatim>\<open>debt\<close> returns
  numbers \<open>d1 \<le> d2\<close>, and they are at most \<open>c / r_free\<close>.
\<close>

theorem debt_monotone_and_bounded:
  assumes "0 < c" "0 < volatility self" "0 < r_free self" "drift self < r_free self"
    and "0 \<le> tau self" "tau self < 1" "0 \<le> alpha self" "alpha self \<le> 1"
    and "q self = Some qv" "0 \<le> qv" "qv \<le> 1"
    and "theta self = Some tv" "0 \<le> tv" "tv \<le> 1" "(1 - qv) * tv < 1"
    and "Renegotiation_debt_renegotiation self (Num kc c) = Inr (Num Numpy B)"
    and "B \<le> x1" "x1 \<le> x2"
  shows "\<exists>d1 d2. Renegotiation_debt self (Num kc c) (Num k1 x1) = Inr (Num Numpy d1)
             \<and> Renegotiation_debt self (Num kc c) (Num k2 x2) = Inr (Num Numpy d2)
             \<and> d1 \<le> d2 \<and> d2 \<le> c / r_free self"
proof -
  define b where "b = beta2_formula (drift self) (volatility self) (r_free self)"
  have bv: "Renegotiation_beta2 self = Inr (Num Numpy b)"
    unfolding b_def using assms(2,3) by (rule beta2_value)
  have b: "b < 0" unfolding b_def using assms(2,3) by (rule beta2_formula_neg)
  have r0: "r_free self \<noteq> 0" and rmu: "r_free self \<noteq> drift self"
    using assms(3,4) by simp_all
  have D: "1 - (1 - qv) * tv \<noteq> 0" using assms(15) by simp
  have "Renegotiation_debt_renegotiation self (Num kc c)
      = Inr (Num Numpy (boundary_formula (r_free self) (drift self) c b qv tv))"
    using b by (simp add: boundary_eval [OF r0 assms(9) assms(12) D bv])
  with assms(16) have B: "B = boundary_formula (r_free self) (drift self) c b qv tv" by simp
  have Bpos: "0 < B"
    unfolding B
    using assms(1) assms(3) assms(4) b assms(5,6,7,8) assms(10,11) assms(13,14,15)
    by (rule recovery_below_annuity(1))
  define K where "K = qv * (1 - alpha self) * (B * (1 - tau self) / (r_free self - drift self))
         + (1 - qv) * (1 - tv) * (B * (1 - tau self) / (r_free self - drift self))
         - c / r_free self"
  have K: "K \<le> 0"
    unfolding K_def B
    using assms(1) assms(3) assms(4) b assms(5,6,7,8) assms(10,11) assms(13,14,15)
    by (rule recovery_below_annuity(2))
  have p1: "0 < x1 / B" and p2: "0 < x2 / B" using Bpos assms(17,18) by simp_all
  have e1: "Renegotiation_debt self (Num kc c) (Num k1 x1)
      = Inr (Num Numpy (c / r_free self + (x1 / B) powr b * K))"
    unfolding K_def by (rule debt_eval [OF r0 rmu assms(9) assms(12) bv assms(16) p1])
  have e2: "Renegotiation_debt self (Num kc c) (Num k2 x2)
      = Inr (Num Numpy (c / r_free self + (x2 / B) powr b * K))"
    unfolding K_def by (rule debt_eval [OF r0 rmu assms(9) assms(12) bv assms(16) p2])
  show ?thesis
    using e1 e2 discounted_shortfall_mono [OF Bpos assms(17,18) b K, of "c / r_free self"]
    by simp
qed

text \<open>
  C4, at a concrete input: with \<open>unit_dynamics\<close> and coupon 1 the boundary is 2/3; the
  debt values at cash flows 1 and 2 are ordered and at most \<open>c / r_free = 1\<close>.
\<close>

theorem debt_monotone_and_bounded_witness:
  "\<exists>d1 d2. Renegotiation_debt unit_dynamics (Num Builtin 1) (Num Builtin 1) = Inr (Num Numpy d1)
      \<and> Renegotiation_debt unit_dynamics (Num Builtin 1) (Num Builtin 2) = Inr (Num Numpy d2)
      \<and> d1 \<le> d2 \<and> d2 \<le> 1"
  using debt_monotone_and_bounded
    [of 1 unit_dynamics "1/2" "1/2" Builtin "2/3" 1 2 Builtin Builtin]
  by (simp add: unit_boundary) (simp add: unit_defs)

text \<open>
  C5. For every drift, every volatility above zero and every riskless rate above zero,
  \<^verbatim>\<open>_beta2\<close> (of either class) returns a number: the discriminant under the square
  root is not negative, so the root is real, the value is the formula
  \<open>0.5 - drift/volatility^2 - sqrt((0.5 - drift/volatility^2)^2 + 2*r_free/volatility^2)\<close>,
  and it is strictly negative.
\<close>

theorem beta2_real_and_negative:
  assumes "0 < volatility self" and "0 < r_free self"
  shows "0 \<le> discriminant (drift self) (volatility self) (r_free self)
       \<and> Renegotiation_beta2 self
           = Inr (Num Numpy (beta2_formula (drift self) (volatility self) (r_free self)))
       \<and> Liquidation_beta2 self
           = Inr (Num Numpy (beta2_formula (drift self) (volatility self) (r_free self)))
       \<and> beta2_formula (drift self) (volatility self) (r_free self) < 0"
proof -
  have d: "0 < discriminant (drift self) (volatility self) (r_free self)"
    using assms by (rule discriminant_pos)
  show ?thesis
    using d beta2_value [OF assms] beta2_formula_neg [OF assms] by (simp add: beta2_same)
qed

text \<open>C5, at a concrete input: drift 0, volatility 1 and riskless rate 1 give \<open>beta2 = -1\<close>.\<close>

theorem beta2_real_and_negative_witness:
  "Renegotiation_beta2 bare_dynamics = Inr (Num Numpy (- 1))
   \<and> Liquidation_beta2 bare_dynamics = Inr (Num Numpy (- 1))"
  using beta2_real_and_negative [of bare_dynamics]
  by (simp add: bare_dynamics_def AssetsDynamics_init_def beta2_formula_unit)

text \<open>
  C6, as stated, fails: with \<open>r_free = drift\<close> and the built-in cash flow 1,
  \<^verbatim>\<open>value\<close> raises \<^verbatim>\<open>ZeroDivisionError\<close>; it returns no infinity.
\<close>

theorem value_raises_counterexample:
  "AssetsDynamics_value degenerate_dynamics (Num Builtin 1) = Inl ZeroDivisionError"
  by (simp add: AssetsDynamics_value_def degenerate_dynamics_def AssetsDynamics_init_def
      expr_defs)

text \<open>
  C6, amended. When \<open>r_free = drift\<close>, \<^verbatim>\<open>value(cash_flow)\<close> raises
  \<^verbatim>\<open>ZeroDivisionError\<close> for every built-in scalar cash flow; for a numpy scalar it
  raises nothing and returns a non-finite value.
\<close>

theorem value_at_equal_rates:
  assumes "r_free self = drift self"
  shows "AssetsDynamics_value self (Num Builtin c) = Inl ZeroDivisionError
       \<and> AssetsDynamics_value self (Num Numpy c) = Inr NonFinite"
  using assms by (simp add: AssetsDynamics_value_def expr_defs)

text \<open>C6 amended, at a concrete input: rates both 1/25, cash flow 2.\<close>

theorem value_at_equal_rates_witness:
  "AssetsDynamics_value degenerate_dynamics (Num Builtin 2) = Inl ZeroDivisionError
   \<and> AssetsDynamics_value degenerate_dynamics (Num Numpy 2) = Inr NonFinite"
  using value_at_equal_rates [of degenerate_dynamics 2]
  by (simp add: degenerate_dynamics_def AssetsDynamics_init_def)

text \<open>
  C7. The liquidation \<^verbatim>\<open>debt(c, x, b)\<close> is to return
  \<open>c / r_free + (x/b) ** beta2 * ((1 - alpha) * value(b) - c / r_free)\<close>. It returns
  nothing: its kernel raises \<^verbatim>\<open>TypeError\<close> (see C1). With the example's
  parameters, coupon 1, cash flow 2 and boundary 1:
\<close>

theorem liquidation_debt_type_error:
  "Liquidation_debt example_dynamics (Num Builtin 1) (Num Builtin 2) (Num Builtin 1)
     = Inl TypeError"
  by (simp add: Liquidation_debt_def Liquidation_arrow_debreu_default_def
      example_dynamics_def debt_renegotation_optimal_theta_def AssetsDynamics_init_def expr_defs)

text \<open>
  C8, as stated, fails: an optimizer that reports failure and hands back the seed makes
  \<^verbatim>\<open>max_coupon\<close> return the seed 0.001 as an ordinary coupon.
\<close>

theorem max_coupon_hides_failure_counterexample:
  "stalled_minimize (partial_obj_max_coupon example_dynamics (Num Builtin 1)) (1/1000)
     = Inr \<lparr>x = [1/1000], success = False, status = 2\<rparr>
   \<and> Renegotiation_max_coupon example_dynamics stalled_minimize (Num Builtin 1)
     = Inr (Num Numpy (1/1000))"
  by (simp add: Renegotiation_max_coupon_def stalled_minimize_def first_component_def)

text \<open>
  C8, amended. \<^verbatim>\<open>max_coupon\<close> does not surface the convergence status: whenever the
  optimizer returns a result, converged or not, \<^verbatim>\<open>max_coupon\<close> returns the first
  component of its final iterate.
\<close>

theorem max_coupon_returns_iterate:
  assumes "minimize (partial_obj_max_coupon self cash_flow) (1/1000) = Inr result"
    and "x result = c # cs"
  shows "Renegotiation_max_coupon self minimize cash_flow = Inr (Num Numpy c)"
  using assms by (simp add: Renegotiation_max_coupon_def first_component_def)

text \<open>C8 amended, at a concrete input: the stalled optimizer on \<open>unit_dynamics\<close>.\<close>

theorem max_coupon_returns_iterate_witness:
  "Renegotiation_max_coupon unit_dynamics stalled_minimize (Num Builtin 1)
     = Inr (Num Numpy (1/1000))"
  using max_coupon_returns_iterate [of stalled_minimize unit_dynamics "Num Builtin 1"
      "\<lparr>x = [1/1000], success = False, status = 2\<rparr>" "1/1000" "[]"]
  by (simp add: stalled_minimize_def)

text \<open>
  C9. Two parameter objects that agree on drift, volatility, riskless rate, tax rate and
  bankruptcy cost, whatever their \<^verbatim>\<open>q\<close>, \<^verbatim>\<open>eta\<close> and \<^verbatim>\<open>theta\<close>, give every
  operation of \<^verbatim>\<open>FirmClaimsLiquidation\<close> the same outcome at the same arguments.
\<close>

theorem liquidation_ignores_renegotiation_fields:
  assumes "drift a = drift b" "volatility a = volatility b" "r_free a = r_free b"
    and "tau a = tau b" "alpha a = alpha b"
  shows "Liquidation_equity a c cf dl = Liquidation_equity b c cf dl
       \<and> Liquidation_debt a c cf dl = Liquidation_debt b c cf dl
       \<and> Liquidation_firm a c cf dl = Liquidation_firm b c cf dl
       \<and> Liquidation_arrow_debreu_default a cf dl = Liquidation_arrow_debreu_default b cf dl
       \<and> Liquidation_beta2 a = Liquidation_beta2 b"
  using assms
  by (simp add: Liquidation_firm_def Liquidation_equity_def Liquidation_debt_def
      Liquidation_arrow_debreu_default_def Liquidation_beta2_def AssetsDynamics_value_def)

text \<open>
  C9, at a concrete input: \<open>bare_dynamics\<close> has no renegotiation parameters,
  \<open>unit_dynamics\<close> has all three.
\<close>

theorem liquidation_ignores_renegotiation_fields_witness:
  "Liquidation_equity bare_dynamics (Num Builtin 1) (Num Builtin 2) (Num Builtin 1)
     = Liquidation_equity unit_dynamics (Num Builtin 1) (Num Builtin 2) (Num Builtin 1)
   \<and> Liquidation_debt bare_dynamics (Num Builtin 1) (Num Builtin 2) (Num Builtin 1)
     = Liquidation_debt unit_dynamics (Num Builtin 1) (Num Builtin 2) (Num Builtin 1)
   \<and> Liquidation_firm bare_dynamics (Num Builtin 1) (Num Builtin 2) (Num Builtin 1)
     = Liquidation_firm unit_dynamics (Num Builtin 1) (Num Builtin 2) (Num Builtin 1)
   \<and> Liquidation_beta2 bare_dynamics = Liquidation_beta2 unit_dynamics"
  using liquidation_ignores_renegotiation_fields [of bare_dynamics unit_dynamics
      "Num Builtin 1" "Num Builtin 2" "Num Builtin 1"]
  by (simp add: bare_dynamics_def unit_defs)

text \<open>
  C10, as stated, fails: with \<^verbatim>\<open>q\<close> and \<^verbatim>\<open>theta\<close> left at \<^verbatim>\<open>None\<close> and a riskless
  rate of zero, \<^verbatim>\<open>debt_renegotiation(1)\<close> fails at \<^verbatim>\<open>coupon / r_free\<close> with
  \<^verbatim>\<open>ZeroDivisionError\<close>, before any arithmetic on \<^verbatim>\<open>None\<close>.
\<close>

theorem none_fields_counterexample:
  "Renegotiation_debt_renegotiation zero_rate_dynamics (Num Builtin 1) = Inl ZeroDivisionError"
  by (simp add: Renegotiation_debt_renegotiation_def zero_rate_dynamics_def
      AssetsDynamics_init_def expr_defs)

text \<open>
  C10, amended. If \<^verbatim>\<open>q\<close> or \<^verbatim>\<open>theta\<close> is \<^verbatim>\<open>None\<close> and \<open>r_free \<noteq> 0\<close> and
  \<open>volatility \<noteq> 0\<close>, then for every scalar coupon and cash flow
  \<^verbatim>\<open>debt_renegotiation\<close> and \<^verbatim>\<open>debt\<close> raise \<^verbatim>\<open>TypeError\<close>, and so do
  \<^verbatim>\<open>equity\<close> and \<^verbatim>\<open>firm\<close> when moreover \<open>r_free \<noteq> drift\<close>. The constructor
  accepts the missing fields, and nothing checks them before the arithmetic.
\<close>

theorem none_fields_type_error:
  assumes "q self = None \<or> theta self = None" "r_free self \<noteq> 0" "volatility self \<noteq> 0"
  shows "Renegotiation_debt_renegotiation self (Num kc c) = Inl TypeError
    \<and> Renegotiation_debt self (Num kc c) (Num kx cf) = Inl TypeError
    \<and> (r_free self \<noteq> drift self \<longrightarrow>
         Renegotiation_equity self (Num kc c) (Num kx cf) = Inl TypeError
       \<and> Renegotiation_firm self (Num kc c) (Num kx cf) = Inl TypeError)"
proof -
  have b: "Renegotiation_debt_renegotiation self (Num kc c) = Inl TypeError"
    using assms
    by (cases "q self"; cases "theta self")
      (simp_all add: Renegotiation_debt_renegotiation_def beta2_eval expr_defs)
  have d: "Renegotiation_debt self (Num kc c) (Num kx cf) = Inl TypeError"
    using assms(2) by (simp add: Renegotiation_debt_def b expr_defs)
  have e: "Renegotiation_equity self (Num kc c) (Num kx cf) = Inl TypeError"
    if "r_free self \<noteq> drift self"
    using assms(2) that by (simp add: Renegotiation_equity_def b value_eval expr_defs)
  show ?thesis using b d e by (simp add: Renegotiation_firm_def Add_def)
qed

text \<open>C10 amended, at a concrete input: \<open>bare_dynamics\<close>, coupon 1, cash flow 1.\<close>

theorem none_fields_type_error_witness:
  "Renegotiation_debt_renegotiation bare_dynamics (Num Builtin 1) = Inl TypeError
   \<and> Renegotiation_debt bare_dynamics (Num Builtin 1) (Num Builtin 1) = Inl TypeError
   \<and> Renegotiation_equity bare_dynamics (Num Builtin 1) (Num Builtin 1) = Inl TypeError
   \<and> Renegotiation_firm bare_dynamics (Num Builtin 1) (Num Builtin 1) = Inl TypeError"
  using none_fields_type_error [of bare_dynamics Builtin 1 Builtin 1]
  by (simp add: bare_dynamics_def AssetsDynamics_init_def)

end
